theory Spec2Isabelle
  imports Complex_Main "HOL-Library.AList" "HOL-Library.Multiset"
begin

section \<open>The Naive Bayes classifier of src/src/NaiveBayes.js\<close>

text \<open>
  A shallow embedding of the class \<open>NaiveBayes\<close>. Every method is a function on the
  record of the instance fields; a method that can throw returns a sum, \<open>Inl\<close> the
  exception. The stemmer \<open>PorterStemmer.tokenizeAndStem\<close> is not part of the class: it is
  a parameter \<open>tok\<close> of every method that calls it, assumed to be a pure function from a
  string to an array of stems.
\<close>

subsection \<open>JavaScript values\<close>

text \<open>
  The two exceptions a method can end with: the string \<open>'Not trained'\<close> thrown by
  \<open>classify\<close> (line 122), and the TypeError the engine raises when a property of
  \<open>null\<close> or \<open>undefined\<close> is read or a missing method is called.
\<close>

datatype error = NotTrained | TypeError

text \<open>
  Numbers are the reals, without rounding. \<open>NotFinite\<close> stands for every value of a
  JavaScript number that is not a finite number (\<open>NaN\<close>, \<open>Infinity\<close>, \<open>-Infinity\<close>):
  the result of arithmetic on \<open>undefined\<close> or on an object, of a division by zero and
  of the logarithm of a number that is not positive. The three are not told apart: the
  arithmetic of the class never leads from one of them back to a finite number.
\<close>

datatype jsnum = Num real | NotFinite

definition to_num :: "jsnum option \<Rightarrow> jsnum" where
  "to_num v = (case v of None \<Rightarrow> NotFinite | Some n \<Rightarrow> n)"

fun js_incr :: "jsnum \<Rightarrow> jsnum" where
  "js_incr (Num x) = Num (x + 1)"
| "js_incr NotFinite = NotFinite"

fun js_add :: "jsnum \<Rightarrow> jsnum \<Rightarrow> jsnum" where
  "js_add (Num x) (Num y) = Num (x + y)"
| "js_add _ _ = NotFinite"

fun js_sub :: "jsnum \<Rightarrow> jsnum \<Rightarrow> jsnum" where
  "js_sub (Num x) (Num y) = Num (x - y)"
| "js_sub _ _ = NotFinite"

fun js_mul :: "jsnum \<Rightarrow> jsnum \<Rightarrow> jsnum" where
  "js_mul (Num x) (Num y) = Num (x * y)"
| "js_mul _ _ = NotFinite"

fun js_div :: "jsnum \<Rightarrow> jsnum \<Rightarrow> jsnum" where
  "js_div (Num x) (Num y) = (if y = 0 then NotFinite else Num (x / y))"
| "js_div _ _ = NotFinite"

fun js_log :: "jsnum \<Rightarrow> jsnum" where
  "js_log (Num x) = (if 0 < x then Num (ln x) else NotFinite)"
| "js_log NotFinite = NotFinite"

fun js_exp :: "jsnum \<Rightarrow> jsnum" where
  "js_exp (Num x) = Num (exp x)"
| "js_exp NotFinite = NotFinite"

text \<open>
  The values a caller can pass as a document: a string, an array of stems, or one of
  the values that are no document.
\<close>

datatype jsdoc =
    DStr string
  | DArr "string list"
  | DNull
  | DUndefined
  | DNum real
  | DBool bool

subsection \<open>Objects used as dictionaries, and \<open>Object.prototype\<close>\<close>

text \<open>
  The class keeps its tables in object literals \<open>{}\<close>. Such an object has its own
  properties, in the order of their creation, and behind them the properties of
  \<open>Object.prototype\<close>: reading \<open>obj[k]\<close> yields the own property \<open>k\<close> and, where there is
  none, the inherited one. The names below are the properties of \<open>Object.prototype\<close>;
  all of them are functions, but \<open>__proto__\<close>, which reads as \<open>Object.prototype\<close> itself.
  None of them is enumerable.
\<close>

definition inherited :: "string \<Rightarrow> bool" where
  "inherited s \<longleftrightarrow>
     s \<in> set [''constructor'', ''hasOwnProperty'', ''isPrototypeOf'', ''propertyIsEnumerable'',
              ''toLocaleString'', ''toString'', ''valueOf'', ''__proto__'',
              ''__defineGetter__'', ''__defineSetter__'', ''__lookupGetter__'',
              ''__lookupSetter__'']"

text \<open>
  A class label is a string that is not one of these names. For such a label the test
  of line 153 and every other \<open>this.classFeatures[label]\<close> and \<open>this.classTotals[label]\<close>
  finds an own property or nothing. A label that is one of the names is outside the
  model: for it line 153 finds the inherited value, no class is created, and lines 167
  and 169 write the counts on an object shared by the whole program (for \<open>__proto__\<close>
  on \<open>Object.prototype\<close> itself, which adds an inherited property to every object).
  With the labels of the model, nothing is ever written to \<open>Object.prototype\<close>, so its
  properties are the names above throughout.
\<close>

typedef label = "{s :: string. \<not> inherited s}"
  morphisms name Label
  by (rule exI [of _ "[]"]) (simp add: inherited_def)

text \<open>
  An object as the list of its own properties. Assigning to an existing property keeps
  its place; a new property goes to the end.
\<close>

type_synonym ('k, 'v) jsobj = "('k \<times> 'v) list"

definition obj_get :: "('k, 'v) jsobj \<Rightarrow> 'k \<Rightarrow> 'v option" where
  "obj_get ps k = map_of ps k"

definition obj_set :: "'k \<Rightarrow> 'v \<Rightarrow> ('k, 'v) jsobj \<Rightarrow> ('k, 'v) jsobj" where
  "obj_set k v ps = AList.update k v ps"

text \<open>
  \<open>obj[k] = v\<close> for a number \<open>v\<close> and any string \<open>k\<close>: the assignment creates or changes
  the own property, also where \<open>k\<close> names an inherited function; for \<open>__proto__\<close> it calls
  the setter of \<open>Object.prototype\<close>, which ignores a value that is no object, and no
  property is created.
\<close>

definition obj_put :: "string \<Rightarrow> 'v \<Rightarrow> (string, 'v) jsobj \<Rightarrow> (string, 'v) jsobj" where
  "obj_put k v ps = (if k = ''__proto__'' then ps else obj_set k v ps)"

text \<open>
  \<open>for (let k in obj)\<close> visits the own properties, not in the order of creation alone:
  the keys that are array indices (the canonical decimal numerals below \<open>2^32 - 1\<close>)
  come first, in ascending numeric order, and only then the other keys in the order of
  their creation. The inherited properties are not enumerable and are not visited.
\<close>

definition digit :: "char \<Rightarrow> nat option" where
  "digit c = (let n = (of_char c :: nat) in if 48 \<le> n \<and> n \<le> 57 then Some (n - 48) else None)"

fun decimal :: "string \<Rightarrow> nat \<Rightarrow> nat option" where
  "decimal [] acc = Some acc"
| "decimal (c # cs) acc = (case digit c of None \<Rightarrow> None | Some d \<Rightarrow> decimal cs (10 * acc + d))"

definition array_index :: "string \<Rightarrow> nat option" where
  "array_index s =
     (case s of
        [] \<Rightarrow> None
      | c # cs \<Rightarrow>
          if c = CHR ''0'' \<and> cs \<noteq> [] then None
          else (case decimal s 0 of
                  None \<Rightarrow> None
                | Some n \<Rightarrow> if n < 2 ^ 32 - 1 then Some n else None))"

definition index_of :: "string \<Rightarrow> nat" where
  "index_of k = (case array_index k of None \<Rightarrow> 0 | Some n \<Rightarrow> n)"

definition key_order :: "('k \<Rightarrow> string) \<Rightarrow> 'k list \<Rightarrow> 'k list" where
  "key_order f ks =
     sort_key (\<lambda>k. index_of (f k)) (filter (\<lambda>k. array_index (f k) \<noteq> None) ks)
       @ filter (\<lambda>k. array_index (f k) = None) ks"

definition for_in :: "('k \<Rightarrow> string) \<Rightarrow> ('k, 'v) jsobj \<Rightarrow> 'k list" where
  "for_in f ps = key_order f (map fst ps)"

text \<open>The property key of the array index \<open>i\<close>: its decimal numeral.\<close>

definition digit_char :: "nat \<Rightarrow> char" where
  "digit_char d = ''0123456789'' ! d"

function index_key :: "nat \<Rightarrow> string" where
  "index_key n = (if n < 10 then [digit_char n] else index_key (n div 10) @ [digit_char (n mod 10)])"
  by pat_completeness auto
termination
  by (relation "measure id") auto

subsection \<open>The instance\<close>

record docObj =
  doc_label :: label
  doc_value :: "string list"

text \<open>
  A recorded count is a number: a sum of ones and the smoothing constant, or the \<open>NaN\<close>
  that \<open>++\<close> makes of an inherited function (line 178).
\<close>

datatype count = Count nat | NaNCount

type_synonym counts = "string \<rightharpoonup> count"

text \<open>
  The argument \<open>docFeatures\<close> of \<open>addExample\<close> and \<open>probabilityOfClass\<close>: an array of
  numbers (\<open>_isArray\<close> holds), or another value, given by the property keys that its own
  values name, in the order \<open>for ... in\<close> visits them (none for \<open>null\<close> and \<open>undefined\<close>).
\<close>

datatype jsfeats = Vec "nat list" | Keyed "string list"

record NaiveBayes =
  docs :: "docObj list"
  lastAdded :: nat
  features :: "(string, nat) jsobj"
  classFeatures :: "(label, counts) jsobj"
  classTotals :: "(label, jsnum) jsobj"
  totalExamples :: nat

text \<open>
  \<open>this.smoothing\<close> is assigned once, by the constructor (line 43), and no method writes
  it again: it is a constant of the model.
\<close>

definition smoothing :: nat where
  "smoothing = 1"

definition constructor :: NaiveBayes where
  "constructor =
     \<lparr> docs = [], lastAdded = 0, features = [], classFeatures = [], classTotals = [],
       totalExamples = 1 \<rparr>"

type_synonym tokenizer = "string \<Rightarrow> string list"

subsection \<open>Helper utils (lines 299-316)\<close>

fun isString :: "jsdoc \<Rightarrow> bool" where
  "isString (DStr _) = True"
| "isString _ = False"

fun isArray :: "jsdoc \<Rightarrow> bool" where
  "isArray (DArr _) = True"
| "isArray _ = False"

text \<open>\<open>typeof s === 'object' || s instanceof Object\<close>: \<open>typeof null\<close> is \<open>'object'\<close>.\<close>

fun isObject :: "jsdoc \<Rightarrow> bool" where
  "isObject (DArr _) = True"
| "isObject DNull = True"
| "isObject _ = False"

text \<open>\<open>s.length\<close>, read where one of the three tests holds.\<close>

fun js_length :: "jsdoc \<Rightarrow> error + nat" where
  "js_length (DStr s) = Inr (length s)"
| "js_length (DArr xs) = Inr (length xs)"
| "js_length _ = Inl TypeError"

definition size_of :: "jsdoc \<Rightarrow> error + nat" where
  "size_of s = (if isArray s \<or> isString s \<or> isObject s then js_length s else Inr 0)"

subsection \<open>addDocument, addDocuments (lines 52-85)\<close>

definition addFeatures :: "string list \<Rightarrow> (string, nat) jsobj \<Rightarrow> (string, nat) jsobj" where
  "addFeatures stems fs = fold (\<lambda>s acc. obj_put s 1 acc) stems fs"

definition addDocument :: "tokenizer \<Rightarrow> jsdoc \<Rightarrow> label \<Rightarrow> NaiveBayes \<Rightarrow> error + NaiveBayes" where
  "addDocument tok doc lbl st =
     (case size_of doc of
        Inl e \<Rightarrow> Inl e
      | Inr n \<Rightarrow>
          if n = 0 then Inr st
          else
            (let stems = (case doc of DStr s \<Rightarrow> tok s | DArr xs \<Rightarrow> xs | _ \<Rightarrow> []);
                 st1 = st\<lparr>docs := docs st @ [\<lparr>doc_label = lbl, doc_value = stems\<rparr>]\<rparr>
             in Inr (st1\<lparr>features := addFeatures stems (features st1)\<rparr>)))"

text \<open>
  The loop of \<open>addDocuments\<close> stops at the first call that throws; the documents added
  before it stay. The result is the state the call leaves and the exception, if any.
\<close>

fun addDocuments :: "tokenizer \<Rightarrow> jsdoc list \<Rightarrow> label \<Rightarrow> NaiveBayes \<Rightarrow> NaiveBayes \<times> error option" where
  "addDocuments tok [] lbl st = (st, None)"
| "addDocuments tok (d # ds) lbl st =
     (case addDocument tok d lbl st of
        Inl e \<Rightarrow> (st, Some e)
      | Inr st' \<Rightarrow> addDocuments tok ds lbl st')"

subsection \<open>addExample (lines 152-184)\<close>

text \<open>
  What \<open>this.classFeatures[label][k]\<close> reads in the counts object \<open>m\<close> of a label: the own
  property, or the inherited function (for \<open>__proto__\<close>, \<open>Object.prototype\<close>), or
  \<open>undefined\<close>.
\<close>

datatype found = Absent | Stored count | Inherited

definition chain_get :: "counts \<Rightarrow> string \<Rightarrow> found" where
  "chain_get m k =
     (case m k of
        Some c \<Rightarrow> Stored c
      | None \<Rightarrow> if inherited k then Inherited else Absent)"

text \<open>\<open>this.classFeatures[label][k] = c\<close>: as \<open>obj_put\<close>, on the counts object.\<close>

definition count_put :: "counts \<Rightarrow> string \<Rightarrow> count \<Rightarrow> counts" where
  "count_put m k c = (if k = ''__proto__'' then m else m(k \<mapsto> c))"

text \<open>
  Lines 166-170 and 177-181: one more occurrence of the feature \<open>k\<close>. A count that is 0 or
  \<open>NaN\<close> is falsy and starts again at \<open>1 + smoothing\<close>; an inherited function is truthy, and
  \<open>++\<close> stores \<open>NaN\<close> for it.
\<close>

definition bump :: "counts \<Rightarrow> string \<Rightarrow> counts" where
  "bump m k =
     (case chain_get m k of
        Absent \<Rightarrow> count_put m k (Count (1 + smoothing))
      | Stored (Count c) \<Rightarrow>
          if c \<noteq> 0 then count_put m k (Count (c + 1)) else count_put m k (Count (1 + smoothing))
      | Stored NaNCount \<Rightarrow> count_put m k (Count (1 + smoothing))
      | Inherited \<Rightarrow> count_put m k NaNCount)"

text \<open>\<open>var i = docFeatures.length; while (i--) { ... }\<close>: the indices from the last to 0.\<close>

fun countVec :: "nat list \<Rightarrow> nat \<Rightarrow> counts \<Rightarrow> counts" where
  "countVec fv 0 m = m"
| "countVec fv (Suc i) m = countVec fv i (if fv ! i \<noteq> 0 then bump m (index_key i) else m)"

definition countKeyed :: "string list \<Rightarrow> counts \<Rightarrow> counts" where
  "countKeyed ks m = fold (\<lambda>k acc. bump acc k) ks m"

definition addExample :: "jsfeats \<Rightarrow> label \<Rightarrow> NaiveBayes \<Rightarrow> NaiveBayes" where
  "addExample docFeatures lbl st =
     (let st1 = (if obj_get (classFeatures st) lbl = None
                 then st\<lparr>classFeatures := obj_set lbl Map.empty (classFeatures st),
                         classTotals := obj_set lbl (Num 1) (classTotals st)\<rparr>
                 else st);
          m = (case obj_get (classFeatures st1) lbl of None \<Rightarrow> Map.empty | Some m0 \<Rightarrow> m0);
          st2 = st1\<lparr>totalExamples := totalExamples st1 + 1\<rparr>
      in case docFeatures of
           Vec fv \<Rightarrow>
             st2\<lparr>classTotals :=
                    obj_set lbl (js_incr (to_num (obj_get (classTotals st2) lbl))) (classTotals st2),
                  classFeatures := obj_set lbl (countVec fv (length fv) m) (classFeatures st2)\<rparr>
         | Keyed ks \<Rightarrow>
             st2\<lparr>classFeatures := obj_set lbl (countKeyed ks m) (classFeatures st2)\<rparr>)"

subsection \<open>docToFeatures (lines 98-110)\<close>

text \<open>\<open>Number(!!~doc.indexOf(feature))\<close> on an array \<open>doc\<close>.\<close>

definition presence :: "string list \<Rightarrow> string \<Rightarrow> nat" where
  "presence doc feature = (if feature \<in> set doc then 1 else 0)"

definition featuresOf :: "NaiveBayes \<Rightarrow> string list \<Rightarrow> nat list" where
  "featuresOf st doc = map (presence doc) (for_in id (features st))"

text \<open>
  The inference methods are written as the mutators are, from the state to the result
  and the state the call leaves. A value that is neither a string nor an array has no
  method \<open>indexOf\<close>: the first pass through the loop throws, and with an empty vocabulary
  there is no pass.
\<close>

definition docToFeatures_call ::
  "tokenizer \<Rightarrow> jsdoc \<Rightarrow> NaiveBayes \<Rightarrow> (error + nat list) \<times> NaiveBayes" where
  "docToFeatures_call tok doc st =
     (case doc of
        DStr s \<Rightarrow> (Inr (featuresOf st (tok s)), st)
      | DArr xs \<Rightarrow> (Inr (featuresOf st xs), st)
      | _ \<Rightarrow> (if for_in id (features st) = [] then Inr [] else Inl TypeError, st))"

definition docToFeatures :: "tokenizer \<Rightarrow> NaiveBayes \<Rightarrow> jsdoc \<Rightarrow> error + nat list" where
  "docToFeatures tok st doc = fst (docToFeatures_call tok doc st)"

subsection \<open>train (lines 133-143)\<close>

text \<open>
  The loop runs over \<open>docs[lastAdded], ..., docs[totalDocs - 1]\<close>; neither \<open>docs\<close> nor the
  vocabulary changes in it. \<open>docs[i].value\<close> is an array, so \<open>docToFeatures\<close> goes
  straight to its loop.
\<close>

definition trainDoc :: "docObj \<Rightarrow> NaiveBayes \<Rightarrow> NaiveBayes" where
  "trainDoc d st =
     (let st1 = addExample (Vec (featuresOf st (doc_value d))) (doc_label d) st
      in st1\<lparr>lastAdded := lastAdded st1 + 1\<rparr>)"

definition train :: "NaiveBayes \<Rightarrow> NaiveBayes" where
  "train st = fold trainDoc (drop (lastAdded st) (docs st)) st"

subsection \<open>probabilityOfClass (lines 224-272)\<close>

text \<open>
  \<open>this.classFeatures[label][k] || this.smoothing\<close>, for an object \<open>classFeatures[label]\<close>,
  as the number the division of line 249 makes of it: an inherited function is truthy
  and is taken, and divides to \<open>NaN\<close>.
\<close>

definition countOr :: "counts \<Rightarrow> string \<Rightarrow> jsnum" where
  "countOr m k =
     (case chain_get m k of
        Absent \<Rightarrow> Num (real smoothing)
      | Stored (Count c) \<Rightarrow> if c \<noteq> 0 then Num (real c) else Num (real smoothing)
      | Stored NaNCount \<Rightarrow> Num (real smoothing)
      | Inherited \<Rightarrow> NotFinite)"

text \<open>
  Lines 238 and 249 for one present feature: reading a property of
  \<open>this.classFeatures[label]\<close> throws when the label has no counts object.
\<close>

definition addLog :: "counts option \<Rightarrow> jsnum \<Rightarrow> string \<Rightarrow> jsnum \<Rightarrow> error + jsnum" where
  "addLog cf classTotal k prob =
     (case cf of
        None \<Rightarrow> Inl TypeError
      | Some m \<Rightarrow> Inr (js_add prob (js_log (js_div (countOr m k) classTotal))))"

fun logVec :: "counts option \<Rightarrow> jsnum \<Rightarrow> nat list \<Rightarrow> nat \<Rightarrow> jsnum \<Rightarrow> error + jsnum" where
  "logVec cf classTotal fv 0 prob = Inr prob"
| "logVec cf classTotal fv (Suc i) prob =
     (if fv ! i \<noteq> 0
      then (case addLog cf classTotal (index_key i) prob of
              Inl e \<Rightarrow> Inl e
            | Inr prob' \<Rightarrow> logVec cf classTotal fv i prob')
      else logVec cf classTotal fv i prob)"

fun logKeyed :: "counts option \<Rightarrow> jsnum \<Rightarrow> string list \<Rightarrow> jsnum \<Rightarrow> error + jsnum" where
  "logKeyed cf classTotal [] prob = Inr prob"
| "logKeyed cf classTotal (k # ks) prob =
     (case addLog cf classTotal k prob of
        Inl e \<Rightarrow> Inl e
      | Inr prob' \<Rightarrow> logKeyed cf classTotal ks prob')"

definition probabilityOfClass_call ::
  "jsfeats \<Rightarrow> label \<Rightarrow> NaiveBayes \<Rightarrow> (error + jsnum) \<times> NaiveBayes" where
  "probabilityOfClass_call docFeatures lbl st =
     (let cf = obj_get (classFeatures st) lbl;
          classTotal = to_num (obj_get (classTotals st) lbl)
      in case (case docFeatures of
                 Vec fv \<Rightarrow> logVec cf classTotal fv (length fv) (Num 0)
               | Keyed ks \<Rightarrow> logKeyed cf classTotal ks (Num 0)) of
           Inl e \<Rightarrow> (Inl e, st)
         | Inr prob \<Rightarrow>
             (Inr (js_mul (js_div classTotal (Num (real (totalExamples st)))) (js_exp prob)), st))"

definition probabilityOfClass :: "NaiveBayes \<Rightarrow> jsfeats \<Rightarrow> label \<Rightarrow> error + jsnum" where
  "probabilityOfClass st docFeatures lbl = fst (probabilityOfClass_call docFeatures lbl st)"

subsection \<open>getClassifications, classify (lines 118-126, 281-294)\<close>

record classification =
  cls_label :: label
  cls_value :: jsnum

text \<open>
  \<open>Array.prototype.sort\<close> with a comparison function is stable; a comparison that
  yields \<open>NaN\<close> counts as 0. On finite values the comparison of line 292 is consistent,
  and then the sorted array is the one an insertion sort gives.
\<close>

fun before :: "jsnum \<Rightarrow> bool" where
  "before (Num d) = (d \<le> 0)"
| "before NotFinite = True"

fun insert_by :: "('a \<Rightarrow> 'a \<Rightarrow> jsnum) \<Rightarrow> 'a \<Rightarrow> 'a list \<Rightarrow> 'a list" where
  "insert_by cmp x [] = [x]"
| "insert_by cmp x (y # ys) = (if before (cmp x y) then x # y # ys else y # insert_by cmp x ys)"

fun js_sort :: "('a \<Rightarrow> 'a \<Rightarrow> jsnum) \<Rightarrow> 'a list \<Rightarrow> 'a list" where
  "js_sort cmp [] = []"
| "js_sort cmp (x # xs) = insert_by cmp x (js_sort cmp xs)"

definition byValue :: "classification \<Rightarrow> classification \<Rightarrow> jsnum" where
  "byValue x y = js_sub (cls_value y) (cls_value x)"

text \<open>
  The loop of lines 284-289 over the class names: each pass calls \<open>docToFeatures\<close> and
  \<open>probabilityOfClass\<close> on the instance as the pass before left it.
\<close>

fun scoreAll_call ::
  "tokenizer \<Rightarrow> jsdoc \<Rightarrow> label list \<Rightarrow> NaiveBayes \<Rightarrow> (error + classification list) \<times> NaiveBayes" where
  "scoreAll_call tok doc [] st = (Inr [], st)"
| "scoreAll_call tok doc (className # rest) st =
     (case docToFeatures_call tok doc st of
        (Inl e, st1) \<Rightarrow> (Inl e, st1)
      | (Inr fv, st1) \<Rightarrow>
          (case probabilityOfClass_call (Vec fv) className st1 of
             (Inl e, st2) \<Rightarrow> (Inl e, st2)
           | (Inr v, st2) \<Rightarrow>
               (case scoreAll_call tok doc rest st2 of
                  (Inl e, st3) \<Rightarrow> (Inl e, st3)
                | (Inr labels, st3) \<Rightarrow>
                    (Inr (\<lparr>cls_label = className, cls_value = v\<rparr> # labels), st3))))"

definition scoreAll :: "tokenizer \<Rightarrow> NaiveBayes \<Rightarrow> jsdoc \<Rightarrow> label list \<Rightarrow> error + classification list" where
  "scoreAll tok st doc cs = fst (scoreAll_call tok doc cs st)"

definition getClassifications_call ::
  "tokenizer \<Rightarrow> jsdoc \<Rightarrow> NaiveBayes \<Rightarrow> (error + classification list) \<times> NaiveBayes" where
  "getClassifications_call tok doc st =
     (case scoreAll_call tok doc (for_in name (classFeatures st)) st of
        (Inl e, st1) \<Rightarrow> (Inl e, st1)
      | (Inr labels, st1) \<Rightarrow> (Inr (js_sort byValue labels), st1))"


definition classify_call :: "tokenizer \<Rightarrow> jsdoc \<Rightarrow> NaiveBayes \<Rightarrow> (error + label) \<times> NaiveBayes" where
  "classify_call tok doc st =
     (case getClassifications_call tok doc st of
        (Inl e, st1) \<Rightarrow> (Inl e, st1)
      | (Inr classifications, st1) \<Rightarrow>
          (case classifications of
             [] \<Rightarrow> (Inl NotTrained, st1)
           | c # _ \<Rightarrow> (Inr (cls_label c), st1)))"


subsection \<open>Calls of the public methods\<close>

text \<open>
  One call of a method on the instance: the state it leaves and what the caller gets,
  a returned value or an exception. A state of the classifier is what a sequence of
  calls makes of a fresh instance.
\<close>

datatype call =
    AddDocument jsdoc label
  | AddDocuments "jsdoc list" label
  | Train
  | AddExample jsfeats label
  | DocToFeatures jsdoc
  | ProbabilityOfClass jsfeats label
  | GetClassifications jsdoc
  | Classify jsdoc

datatype jsresult =
    Undefined
  | Features "nat list"
  | Probability jsnum
  | Ranking "classification list"
  | Chosen label

fun exec :: "tokenizer \<Rightarrow> call \<Rightarrow> NaiveBayes \<Rightarrow> NaiveBayes \<times> (error + jsresult)" where
  "exec tok (AddDocument doc lbl) st =
     (case addDocument tok doc lbl st of
        Inl e \<Rightarrow> (st, Inl e)
      | Inr st' \<Rightarrow> (st', Inr Undefined))"
| "exec tok (AddDocuments ds lbl) st =
     (case addDocuments tok ds lbl st of
        (st', None) \<Rightarrow> (st', Inr Undefined)
      | (st', Some e) \<Rightarrow> (st', Inl e))"
| "exec tok Train st = (train st, Inr Undefined)"
| "exec tok (AddExample docFeatures lbl) st = (addExample docFeatures lbl st, Inr Undefined)"
| "exec tok (DocToFeatures doc) st =
     (case docToFeatures_call tok doc st of (r, st') \<Rightarrow> (st', map_sum id Features r))"
| "exec tok (ProbabilityOfClass docFeatures lbl) st =
     (case probabilityOfClass_call docFeatures lbl st of (r, st') \<Rightarrow> (st', map_sum id Probability r))"
| "exec tok (GetClassifications doc) st =
     (case getClassifications_call tok doc st of (r, st') \<Rightarrow> (st', map_sum id Ranking r))"
| "exec tok (Classify doc) st =
     (case classify_call tok doc st of (r, st') \<Rightarrow> (st', map_sum id Chosen r))"

definition run :: "tokenizer \<Rightarrow> call list \<Rightarrow> NaiveBayes \<Rightarrow> NaiveBayes" where
  "run tok calls st = fold (\<lambda>c s. fst (exec tok c s)) calls st"

text \<open>A tokenizer to run examples with: the words between spaces.\<close>

fun words_from :: "string \<Rightarrow> string \<Rightarrow> string list" where
  "words_from w [] = (if w = [] then [] else [w])"
| "words_from w (c # cs) =
     (if c = CHR '' '' then (if w = [] then words_from [] cs else w # words_from [] cs)
      else words_from (w @ [c]) cs)"

definition by_spaces :: tokenizer where
  "by_spaces s = words_from [] s"

subsection \<open>Notions used in the statements\<close>

text \<open>The distinct elements of a list, in the order of their first occurrence.\<close>

fun first_seen :: "'a list \<Rightarrow> 'a list" where
  "first_seen [] = []"
| "first_seen (x # xs) = x # removeAll x (first_seen xs)"

text \<open>The stems of all added documents, in the order they were added.\<close>

definition allStems :: "NaiveBayes \<Rightarrow> string list" where
  "allStems st = concat (map doc_value (docs st))"

text \<open>
  What every method keeps true of the counters: \<open>totalExamples\<close> is positive, the two
  objects \<open>classFeatures\<close> and \<open>classTotals\<close> have the same labels, and every total is a
  number that is at least 1.
\<close>

definition totals_ok :: "(label, jsnum) jsobj \<Rightarrow> bool" where
  "totals_ok ts \<longleftrightarrow> (\<forall>(l, t) \<in> set ts. \<exists>r. t = Num r \<and> 1 \<le> r)"

definition counters_ok :: "NaiveBayes \<Rightarrow> bool" where
  "counters_ok st \<longleftrightarrow>
     0 < totalExamples st
     \<and> map fst (classTotals st) = map fst (classFeatures st)
     \<and> distinct (map fst (classFeatures st))
     \<and> totals_ok (classTotals st)"

section \<open>Properties\<close>

subsection \<open>Objects, labels and keys\<close>

lemma obj_get_set: "obj_get (obj_set k v ps) k' = (if k' = k then Some v else obj_get ps k')"
  by (simp add: obj_get_def obj_set_def update_conv')

lemma keys_obj_set:
  "map fst (obj_set k v ps) = (if k \<in> set (map fst ps) then map fst ps else map fst ps @ [k])"
  unfolding obj_set_def by (rule update_keys)

lemma distinct_obj_set: "distinct (map fst ps) \<Longrightarrow> distinct (map fst (obj_set k v ps))"
  unfolding obj_set_def by (rule distinct_update)

lemma obj_get_None_iff: "obj_get ps k = None \<longleftrightarrow> k \<notin> set (map fst ps)"
  by (simp add: obj_get_def map_of_eq_None_iff)

lemma obj_get_in_set: "obj_get ps k = Some v \<Longrightarrow> (k, v) \<in> set ps"
  by (simp add: obj_get_def map_of_SomeD)

lemma set_obj_set:
  "(k', v') \<in> set (obj_set k v ps) \<Longrightarrow> (k' = k \<and> v' = v) \<or> (k', v') \<in> set ps"
  unfolding obj_set_def by (induction ps) (auto split: if_splits)

lemma mset_key_order: "mset (key_order f ks) = mset ks"
  by (simp add: key_order_def)

lemma set_key_order: "set (key_order f ks) = set ks"
  by (auto simp: key_order_def)


lemma distinct_key_order: "distinct (key_order f ks) = distinct ks"
  using mset_key_order [of f ks] by (metis mset_eq_imp_distinct_iff)

lemma name_Label: "\<not> inherited s \<Longrightarrow> name (Label s) = s"
  by (simp add: Label_inverse)

lemma Label_eq: "\<not> inherited a \<Longrightarrow> \<not> inherited b \<Longrightarrow> Label a = Label b \<longleftrightarrow> a = b"
  by (simp add: Label_inject)

lemma not_inherited_name: "\<not> inherited (name l)"
  using name [of l] by simp


declare index_key.simps [simp del]

lemma index_key_small: "n < 10 \<Longrightarrow> index_key n = [digit_char n]"
  by (subst index_key.simps) simp




subsection \<open>Inference leaves the instance alone\<close>

lemma docToFeatures_call_state: "snd (docToFeatures_call tok doc st) = st"
  by (cases doc) (simp_all add: docToFeatures_call_def)

lemma probabilityOfClass_call_state: "snd (probabilityOfClass_call docFeatures lbl st) = st"
  by (simp add: probabilityOfClass_call_def Let_def split: sum.splits)

lemma scoreAll_call_state: "snd (scoreAll_call tok doc cs st) = st"
proof (induction cs arbitrary: st)
  case Nil
  then show ?case by simp
next
  case (Cons c cs)
  obtain r1 where r1: "docToFeatures_call tok doc st = (r1, st)"
    using docToFeatures_call_state [of tok doc st] by (cases "docToFeatures_call tok doc st") simp
  show ?case
  proof (cases r1)
    case (Inl e)
    with r1 show ?thesis by simp
  next
    case (Inr fv)
    obtain r2 where r2: "probabilityOfClass_call (Vec fv) c st = (r2, st)"
      using probabilityOfClass_call_state [of "Vec fv" c st]
      by (cases "probabilityOfClass_call (Vec fv) c st") simp
    obtain r3 where r3: "scoreAll_call tok doc cs st = (r3, st)"
      using Cons.IH [of st] by (cases "scoreAll_call tok doc cs st") simp
    from r1 Inr r2 r3 show ?thesis
      by (simp split: sum.splits)
  qed
qed

lemma getClassifications_call_state: "snd (getClassifications_call tok doc st) = st"
  using scoreAll_call_state [of tok doc "for_in name (classFeatures st)" st]
  by (auto simp: getClassifications_call_def split: prod.splits sum.splits)

lemma classify_call_state: "snd (classify_call tok doc st) = st"
  using getClassifications_call_state [of tok doc st]
  by (auto simp: classify_call_def split: prod.splits sum.splits list.splits)

text \<open>
  Claim C10. \<open>classify\<close>, \<open>getClassifications\<close>, \<open>docToFeatures\<close> and
  \<open>probabilityOfClass\<close>, each followed through its own body and through the calls and
  loops it makes, leave every field of the instance as it was, whatever they return or
  throw; so does a call of any of them through the public interface.
\<close>

theorem inference_keeps_state:
  "snd (classify_call tok doc st) = st
   \<and> snd (getClassifications_call tok doc st) = st
   \<and> snd (docToFeatures_call tok doc st) = st
   \<and> snd (probabilityOfClass_call docFeatures lbl st) = st
   \<and> fst (exec tok (Classify doc) st) = st
   \<and> fst (exec tok (GetClassifications doc) st) = st
   \<and> fst (exec tok (DocToFeatures doc) st) = st
   \<and> fst (exec tok (ProbabilityOfClass docFeatures lbl) st) = st"
  using classify_call_state [of tok doc st] getClassifications_call_state [of tok doc st]
    docToFeatures_call_state [of tok doc st] probabilityOfClass_call_state [of docFeatures lbl st]
  by (auto split: prod.splits)

subsection \<open>The results of the inference methods\<close>

lemma docToFeatures_eq:
  "docToFeatures tok st doc =
     (case doc of
        DStr s \<Rightarrow> Inr (featuresOf st (tok s))
      | DArr xs \<Rightarrow> Inr (featuresOf st xs)
      | _ \<Rightarrow> if for_in id (features st) = [] then Inr [] else Inl TypeError)"
  by (cases doc) (simp_all add: docToFeatures_def docToFeatures_call_def)

lemma docToFeatures_call_eq: "docToFeatures_call tok doc st = (docToFeatures tok st doc, st)"
  using docToFeatures_call_state [of tok doc st]
  by (simp add: docToFeatures_def prod_eq_iff)

lemma probabilityOfClass_eq:
  "probabilityOfClass st docFeatures lbl =
     (case (case docFeatures of
              Vec fv \<Rightarrow> logVec (obj_get (classFeatures st) lbl)
                         (to_num (obj_get (classTotals st) lbl)) fv (length fv) (Num 0)
            | Keyed ks \<Rightarrow> logKeyed (obj_get (classFeatures st) lbl)
                         (to_num (obj_get (classTotals st) lbl)) ks (Num 0)) of
        Inl e \<Rightarrow> Inl e
      | Inr prob \<Rightarrow>
          Inr (js_mul (js_div (to_num (obj_get (classTotals st) lbl))
                         (Num (real (totalExamples st)))) (js_exp prob)))"
  by (simp add: probabilityOfClass_def probabilityOfClass_call_def Let_def split: sum.splits)

lemma probabilityOfClass_call_eq:
  "probabilityOfClass_call docFeatures lbl st = (probabilityOfClass st docFeatures lbl, st)"
  using probabilityOfClass_call_state [of docFeatures lbl st]
  by (simp add: probabilityOfClass_def prod_eq_iff)

lemma scoreAll_call_eq: "scoreAll_call tok doc cs st = (scoreAll tok st doc cs, st)"
  using scoreAll_call_state [of tok doc cs st]
  by (simp add: scoreAll_def prod_eq_iff)

lemma scoreAll_Nil: "scoreAll tok st doc [] = Inr []"
  by (simp add: scoreAll_def)

lemma scoreAll_Cons:
  "scoreAll tok st doc (c # cs) =
     (case docToFeatures tok st doc of
        Inl e \<Rightarrow> Inl e
      | Inr fv \<Rightarrow>
          (case probabilityOfClass st (Vec fv) c of
             Inl e \<Rightarrow> Inl e
           | Inr v \<Rightarrow>
               (case scoreAll tok st doc cs of
                  Inl e \<Rightarrow> Inl e
                | Inr labels \<Rightarrow> Inr (\<lparr>cls_label = c, cls_value = v\<rparr> # labels))))"
proof -
  have "scoreAll tok st doc (c # cs) = fst (scoreAll_call tok doc (c # cs) st)"
    by (simp add: scoreAll_def)
  also have "\<dots> =
     (case docToFeatures tok st doc of
        Inl e \<Rightarrow> Inl e
      | Inr fv \<Rightarrow>
          (case probabilityOfClass st (Vec fv) c of
             Inl e \<Rightarrow> Inl e
           | Inr v \<Rightarrow>
               (case scoreAll tok st doc cs of
                  Inl e \<Rightarrow> Inl e
                | Inr labels \<Rightarrow> Inr (\<lparr>cls_label = c, cls_value = v\<rparr> # labels))))"
    by (simp add: docToFeatures_call_eq probabilityOfClass_call_eq scoreAll_call_eq [of tok doc cs]
        split: sum.splits)
  finally show ?thesis .
qed




subsection \<open>The untrained-model error\<close>








lemma scoreAll_labels: "scoreAll tok st doc cs = Inr ls \<Longrightarrow> map cls_label ls = cs"
  by (induction cs arbitrary: ls) (auto simp: scoreAll_Nil scoreAll_Cons split: sum.splits)










subsection \<open>Training twice\<close>

lemma addExample_docs [simp]: "docs (addExample f lbl st) = docs st"
  by (simp add: addExample_def Let_def split: jsfeats.splits)

lemma addExample_lastAdded [simp]: "lastAdded (addExample f lbl st) = lastAdded st"
  by (simp add: addExample_def Let_def split: jsfeats.splits)

lemma addExample_features [simp]: "features (addExample f lbl st) = features st"
  by (simp add: addExample_def Let_def split: jsfeats.splits)

lemma trainDoc_docs [simp]: "docs (trainDoc d st) = docs st"
  by (simp add: trainDoc_def Let_def)

lemma trainDoc_lastAdded [simp]: "lastAdded (trainDoc d st) = lastAdded st + 1"
  by (simp add: trainDoc_def Let_def)

lemma trainDoc_features [simp]: "features (trainDoc d st) = features st"
  by (simp add: trainDoc_def Let_def)

lemma fold_trainDoc_docs: "docs (fold trainDoc ds st) = docs st"
  by (induction ds arbitrary: st) auto

lemma fold_trainDoc_lastAdded: "lastAdded (fold trainDoc ds st) = lastAdded st + length ds"
  by (induction ds arbitrary: st) auto

lemma fold_trainDoc_features: "features (fold trainDoc ds st) = features st"
  by (induction ds arbitrary: st) auto

lemma train_docs: "docs (train st) = docs st"
  by (simp add: train_def fold_trainDoc_docs)

lemma train_features: "features (train st) = features st"
  by (simp add: train_def fold_trainDoc_features)

lemma train_lastAdded: "lastAdded (train st) = max (lastAdded st) (length (docs st))"
  by (simp add: train_def fold_trainDoc_lastAdded)

lemma train_nothing_new: "length (docs st) \<le> lastAdded st \<Longrightarrow> train st = st"
  by (simp add: train_def)

text \<open>
  Claim C7. A second \<open>train()\<close> right after a first one changes no field of the
  instance: the first call leaves the cursor \<open>lastAdded\<close> at or beyond the end of \<open>docs\<close>,
  so the loop of the second call has no pass.
\<close>

theorem train_twice:
  "train (train st) = train st
   \<and> classFeatures (train (train st)) = classFeatures (train st)
   \<and> classTotals (train (train st)) = classTotals (train st)
   \<and> totalExamples (train (train st)) = totalExamples (train st)
   \<and> lastAdded (train (train st)) = lastAdded (train st)"
proof -
  have "length (docs (train st)) \<le> lastAdded (train st)"
    by (simp add: train_docs train_lastAdded)
  then have "train (train st) = train st"
    by (rule train_nothing_new)
  then show ?thesis by simp
qed

subsection \<open>Documents that are skipped\<close>

text \<open>
  An empty string, an empty array, \<open>undefined\<close>, a number and a boolean are skipped by
  \<open>addDocument\<close>: no exception, and the instance is left as it was.
\<close>

lemma addDocument_skips:
  "addDocument tok (DStr []) lbl st = Inr st
   \<and> addDocument tok (DArr []) lbl st = Inr st
   \<and> addDocument tok DUndefined lbl st = Inr st
   \<and> addDocument tok (DNum x) lbl st = Inr st
   \<and> addDocument tok (DBool b) lbl st = Inr st"
  by (simp add: addDocument_def size_of_def)

text \<open>
  Claim C8. \<open>null\<close> is not skipped: \<open>_isObject(null)\<close> holds, since \<open>typeof null\<close> is
  \<open>'object'\<close>, so \<open>_size\<close> reads \<open>null.length\<close>, which throws a TypeError, where the claim
  has the call return without an error.
\<close>

theorem addDocument_null_throws:
  "addDocument by_spaces DNull (Label ''positive'') constructor = Inl TypeError"
  by (simp add: addDocument_def size_of_def)

subsection \<open>What the counters keep\<close>

lemma counters_ok_constructor: "counters_ok constructor"
  by (simp add: counters_ok_def constructor_def totals_ok_def)

lemma totals_ok_set: "totals_ok ts \<Longrightarrow> 1 \<le> r \<Longrightarrow> totals_ok (obj_set l (Num r) ts)"
  unfolding totals_ok_def by (auto dest!: set_obj_set)

lemma totals_ok_get: "totals_ok ts \<Longrightarrow> obj_get ts l = Some t \<Longrightarrow> \<exists>r. t = Num r \<and> 1 \<le> r"
  unfolding totals_ok_def by (auto dest!: obj_get_in_set)

lemma counters_ok_total:
  assumes "counters_ok st" and "obj_get (classFeatures st) lbl = Some m"
  shows "\<exists>r. obj_get (classTotals st) lbl = Some (Num r) \<and> 1 \<le> r"
proof -
  have "lbl \<in> set (map fst (classTotals st))"
    using assms by (metis counters_ok_def obj_get_None_iff option.distinct(1))
  then obtain t where t: "obj_get (classTotals st) lbl = Some t"
    by (metis obj_get_None_iff option.exhaust)
  with assms(1) totals_ok_get show ?thesis
    unfolding counters_ok_def by blast
qed

lemma counters_ok_addExample:
  assumes "counters_ok st"
  shows "counters_ok (addExample f lbl st)"
proof (cases "obj_get (classFeatures st) lbl")
  case None
  from None assms show ?thesis
    by (cases f)
      (auto simp: counters_ok_def addExample_def Let_def obj_get_set keys_obj_set to_num_def
        intro!: totals_ok_set intro: distinct_obj_set [simplified])
next
  case (Some m)
  from counters_ok_total [OF assms Some] obtain r
    where r: "obj_get (classTotals st) lbl = Some (Num r)" "1 \<le> r" by blast
  have in1: "lbl \<in> fst ` set (classFeatures st)"
    using Some obj_get_None_iff [of "classFeatures st" lbl] by auto
  have in2: "lbl \<in> fst ` set (classTotals st)"
    using r obj_get_None_iff [of "classTotals st" lbl] by auto
  from Some r assms in1 in2 show ?thesis
    by (cases f)
      (auto simp: counters_ok_def addExample_def Let_def keys_obj_set to_num_def
        intro!: totals_ok_set)
qed

lemma counters_ok_cong:
  "counters_ok st \<Longrightarrow> totalExamples st' = totalExamples st \<Longrightarrow>
   classTotals st' = classTotals st \<Longrightarrow> classFeatures st' = classFeatures st \<Longrightarrow>
   counters_ok st'"
  by (simp add: counters_ok_def)

lemma counters_ok_trainDoc: "counters_ok st \<Longrightarrow> counters_ok (trainDoc d st)"
  unfolding trainDoc_def Let_def
  by (rule counters_ok_cong [OF counters_ok_addExample]) simp_all

lemma counters_ok_fold_trainDoc: "counters_ok st \<Longrightarrow> counters_ok (fold trainDoc ds st)"
  by (induction ds arbitrary: st) (simp_all add: counters_ok_trainDoc)

lemma counters_ok_train: "counters_ok st \<Longrightarrow> counters_ok (train st)"
  by (simp add: train_def counters_ok_fold_trainDoc)

lemma counters_ok_addDocument:
  "counters_ok st \<Longrightarrow> addDocument tok doc lbl st = Inr st' \<Longrightarrow> counters_ok st'"
  by (auto simp: addDocument_def Let_def counters_ok_def split: sum.splits if_splits)

lemma counters_ok_addDocuments:
  "counters_ok st \<Longrightarrow> counters_ok (fst (addDocuments tok ds lbl st))"
  by (induction ds arbitrary: st) (auto split: sum.splits dest: counters_ok_addDocument)

lemma exec_inference:
  "fst (exec tok (DocToFeatures doc) st) = st"
  "fst (exec tok (ProbabilityOfClass f lbl) st) = st"
  "fst (exec tok (GetClassifications doc) st) = st"
  "fst (exec tok (Classify doc) st) = st"
  using classify_call_state [of tok doc st] getClassifications_call_state [of tok doc st]
    docToFeatures_call_state [of tok doc st] probabilityOfClass_call_state [of f lbl st]
  by (auto split: prod.splits)

lemma counters_ok_exec: "counters_ok st \<Longrightarrow> counters_ok (fst (exec tok c st))"
proof (cases c)
  case (AddDocument d l)
  assume "counters_ok st"
  with AddDocument show ?thesis
    by (auto split: sum.splits dest: counters_ok_addDocument)
next
  case (AddDocuments ds l)
  assume "counters_ok st"
  from counters_ok_addDocuments [OF this, of tok ds l] AddDocuments show ?thesis
    by (auto split: prod.splits option.splits)
qed (simp_all add: counters_ok_train counters_ok_addExample exec_inference del: exec.simps(5-8))

lemma counters_ok_run: "counters_ok st \<Longrightarrow> counters_ok (run tok calls st)"
  unfolding run_def by (induction calls arbitrary: st) (simp_all add: counters_ok_exec)

lemma counters_ok_reachable: "counters_ok (run tok calls constructor)"
  by (rule counters_ok_run [OF counters_ok_constructor])

subsection \<open>The prior\<close>

lemma logVec_zeros: "n \<le> length fv \<Longrightarrow> \<forall>v \<in> set fv. v = 0 \<Longrightarrow> logVec cf t fv n p = Inr p"
  by (induction n arbitrary: p) simp_all

lemma probabilityOfClass_zeros:
  "\<forall>v \<in> set fv. v = 0 \<Longrightarrow>
   probabilityOfClass st (Vec fv) lbl
     = Inr (js_div (to_num (obj_get (classTotals st) lbl)) (Num (real (totalExamples st))))"
  by (cases "js_div (to_num (obj_get (classTotals st) lbl)) (Num (real (totalExamples st)))")
    (simp_all add: probabilityOfClass_eq logVec_zeros)

lemma featuresOf_disjoint:
  "set doc \<inter> fst ` set (features st) = {} \<Longrightarrow> \<forall>v \<in> set (featuresOf st doc). v = 0"
  by (auto simp: featuresOf_def presence_def for_in_def set_key_order)

text \<open>
  Claim C3. For a trained label, in the state any sequence of calls makes of a fresh
  instance, a feature vector with no present feature gets exactly the prior, the total
  of the label divided by \<open>totalExamples\<close> (which is positive); such is the vector of a
  document that shares no stem with the vocabulary.
\<close>

theorem prior_only:
  assumes "st = run tok calls constructor" and "obj_get (classFeatures st) lbl = Some m"
  shows "\<exists>t. obj_get (classTotals st) lbl = Some (Num t) \<and> 0 < totalExamples st
    \<and> ((\<forall>v \<in> set fv. v = 0) \<longrightarrow>
         probabilityOfClass st (Vec fv) lbl = Inr (Num (t / real (totalExamples st))))
    \<and> (set xs \<inter> fst ` set (features st) = {} \<longrightarrow>
         (\<exists>fv'. docToFeatures tok st (DArr xs) = Inr fv'
            \<and> probabilityOfClass st (Vec fv') lbl = Inr (Num (t / real (totalExamples st)))))
    \<and> (set (tok s) \<inter> fst ` set (features st) = {} \<longrightarrow>
         (\<exists>fv'. docToFeatures tok st (DStr s) = Inr fv'
            \<and> probabilityOfClass st (Vec fv') lbl = Inr (Num (t / real (totalExamples st)))))"
proof -
  have ok: "counters_ok st"
    unfolding assms(1) by (rule counters_ok_reachable)
  from counters_ok_total [OF ok assms(2)] obtain t
    where t: "obj_get (classTotals st) lbl = Some (Num t)" by blast
  have te: "0 < totalExamples st"
    using ok by (simp add: counters_ok_def)
  have z: "probabilityOfClass st (Vec ys) lbl = Inr (Num (t / real (totalExamples st)))"
    if "\<forall>v \<in> set ys. v = 0" for ys
    using probabilityOfClass_zeros [OF that, of st lbl] t te by (simp add: to_num_def)
  have d: "probabilityOfClass st (Vec (featuresOf st ws)) lbl
      = Inr (Num (t / real (totalExamples st)))"
    if "set ws \<inter> fst ` set (features st) = {}" for ws
    by (rule z [OF featuresOf_disjoint [OF that]])
  show ?thesis
    using t te z d by (auto simp: docToFeatures_eq)
qed

subsection \<open>The smoothing floor\<close>






lemmas run_simps =
  run_def addDocument_def size_of_def by_spaces_def addFeatures_def constructor_def
  train_def trainDoc_def addExample_def Let_def obj_get_def obj_set_def obj_put_def featuresOf_def
  for_in_def key_order_def array_index_def digit_def index_of_def presence_def bump_def
  chain_get_def count_put_def countVec.simps countKeyed_def smoothing_def index_key_small
  digit_char_def inherited_def to_num_def


theorem prior_only_witness:
  "obj_get (classFeatures (run by_spaces [AddDocument (DStr ''good'') (Label ''positive''), Train] constructor))
      (Label ''positive'') = Some (Map.empty(''0'' \<mapsto> Count 2))
   \<and> probabilityOfClass (run by_spaces [AddDocument (DStr ''good'') (Label ''positive''), Train] constructor)
        (Vec [0]) (Label ''positive'') = Inr (Num (2 / 2))"
proof -
  let ?st = "run by_spaces [AddDocument (DStr ''good'') (Label ''positive''), Train] constructor"
  have h: "obj_get (classFeatures ?st) (Label ''positive'') = Some (Map.empty(''0'' \<mapsto> Count 2))"
    by (simp add: run_simps numeral_2_eq_2)
  have t: "obj_get (classTotals ?st) (Label ''positive'') = Some (Num 2)"
    by (simp add: run_simps)
  have e: "totalExamples ?st = 2"
    by (simp add: run_simps)
  from prior_only [OF refl h, where fv = "[0]"] t e
  have "probabilityOfClass ?st (Vec [0]) (Label ''positive'') = Inr (Num (2 / 2))"
    by auto
  with h show ?thesis by blast
qed

subsection \<open>A count that is no number\<close>

text \<open>
  Claim C6. One call \<open>addExample({w: 'constructor'}, 'spam')\<close> on a fresh instance:
  line 177 reads the function that the counts object inherits under the name
  \<open>constructor\<close>, which is truthy, and line 178 applies \<open>++\<close> to it: the count recorded for
  the class is \<open>NaN\<close>, where the claim has every recorded count at least \<open>1 + smoothing\<close>.
\<close>

theorem count_not_a_number:
  "obj_get (classFeatures
      (run by_spaces [AddExample (Keyed [''constructor'']) (Label ''spam'')] constructor))
      (Label ''spam'') = Some (Map.empty(''constructor'' \<mapsto> NaNCount))"
  by (simp add: run_simps)

subsection \<open>The order of the feature vector\<close>

text \<open>
  Claim C9. After the document \<open>["10", "2"]\<close> the vocabulary in the order of first
  addition is \<open>10, 2\<close>, but the loop of \<open>docToFeatures\<close> visits \<open>2\<close> before \<open>10\<close>: the vector
  of the document \<open>["10"]\<close> is \<open>[0, 1]\<close>, where the claim has \<open>[1, 0]\<close>.
\<close>

theorem docToFeatures_numeric_stems:
  "first_seen (allStems (run by_spaces [AddDocument (DArr [''10'', ''2'']) (Label ''spam'')] constructor))
     = [''10'', ''2'']
   \<and> docToFeatures by_spaces
        (run by_spaces [AddDocument (DArr [''10'', ''2'']) (Label ''spam'')] constructor) (DArr [''10''])
     = Inr [0, 1]
   \<and> docToFeatures by_spaces
        (run by_spaces [AddDocument (DArr [''10'', ''2'']) (Label ''spam'')] constructor) (DArr [''10''])
     \<noteq> Inr (map (\<lambda>f. if f \<in> set [''10''] then 1 else 0)
            (first_seen (allStems
               (run by_spaces [AddDocument (DArr [''10'', ''2'']) (Label ''spam'')] constructor))))"
  by (simp add: run_simps allStems_def docToFeatures_eq)

lemma docToFeatures_proto_stem:
  "docToFeatures by_spaces
     (run by_spaces [AddDocument (DArr [''__proto__'', ''a'', ''constructor'']) (Label ''spam'')]
        constructor) (DArr [''a'', ''__proto__''])
     = Inr [1, 0]"
  by (simp add: run_simps docToFeatures_eq)

end
